theory Spec2Isabelle
  imports Complex_Main "HOL-Library.Product_Lexorder"
begin

section \<open>Strings: the ticker symbol\<close>

text \<open>
  A Python \<open>str\<close> is a sequence of Unicode code points and is modelled as the list of
  their numbers; \<open>ascii\<close> embeds a literal written in ASCII.
\<close>

type_synonym pystr = "nat list"

definition ascii :: "string \<Rightarrow> pystr" where
  "ascii s = map of_char s"

text \<open>
  The white space that \<open>str.strip()\<close> removes: the code points for which
  \<open>str.isspace\<close> holds, in ASCII 9..13, 28..31 and 32, beyond it U+0085, U+00A0,
  U+1680, U+2000..U+200A, U+2028, U+2029, U+202F, U+205F and U+3000.
\<close>

definition is_space :: "nat \<Rightarrow> bool" where
  "is_space c =
     (c \<in> {0x09, 0x0A, 0x0B, 0x0C, 0x0D, 0x1C, 0x1D, 0x1E, 0x1F, 0x20, 0x85, 0xA0,
            0x1680, 0x2028, 0x2029, 0x202F, 0x205F, 0x3000}
      \<or> (0x2000 \<le> c \<and> c \<le> 0x200A))"

definition strip :: "pystr \<Rightarrow> pystr" where
  "strip s = rev (dropWhile is_space (rev (dropWhile is_space s)))"

text \<open>
  \<open>str.upper()\<close> replaces each code point by its full uppercase mapping, which has
  one to three code points. In ASCII the mapping takes \<open>a..z\<close> (97..122) to
  \<open>A..Z\<close> and leaves the rest; from 128 on it is the table of the Unicode character
  database, which is the argument \<open>toupper\<close> (it maps U+00DF to \<open>SS\<close>, for
  instance).
\<close>

definition upper_ascii :: "nat \<Rightarrow> nat" where
  "upper_ascii c = (if 97 \<le> c \<and> c \<le> 122 then c - 32 else c)"

definition upper :: "(nat \<Rightarrow> pystr) \<Rightarrow> pystr \<Rightarrow> pystr" where
  "upper toupper s = concat (map (\<lambda>c. if c < 128 then [upper_ascii c] else toupper c) s)"

text \<open>The four market names of the combo boxes, two code points each.\<close>

definition market_US :: pystr where
  "market_US = [0x7F8E, 0x570B]"

definition market_TW :: pystr where
  "market_TW = [0x53F0, 0x7063]"

definition market_JP :: pystr where
  "market_JP = [0x65E5, 0x672C]"

definition market_UK :: pystr where
  "market_UK = [0x82F1, 0x570B]"

text \<open>The dictionary literal of \<open>format_ticker\<close>, in the order it is written.\<close>

definition suffixes :: "(pystr \<times> pystr) list" where
  "suffixes =
     [(market_TW, ascii ''.TW''), (market_JP, ascii ''.T''), (market_UK, ascii ''.L'')]"

text \<open>
  \<^verbatim>\<open>
  raw = raw.strip().upper()
  if market == US: return raw
  return raw + {TW: ".TW", JP: ".T", UK: ".L"}.get(market, "")
  \<close>
\<close>

definition format_ticker :: "(nat \<Rightarrow> pystr) \<Rightarrow> pystr \<Rightarrow> pystr \<Rightarrow> pystr" where
  "format_ticker toupper raw market =
     (let raw = upper toupper (strip raw)
      in if market = market_US then raw
         else raw @ (case map_of suffixes market of Some s \<Rightarrow> s | None \<Rightarrow> []))"

section \<open>Numbers: numpy's float64 without rounding\<close>

text \<open>
  A \<open>float64\<close> is modelled as an exact real number or one of the three special
  values. The arithmetic follows IEEE 754 on the special values (a division by zero
  gives an infinity or not-a-number and never raises); rounding, overflow and the sign
  of zero are not modelled, so a finite result is the exact one.
\<close>

datatype npfloat = Num real | PInf | NInf | NaN

fun fneg :: "npfloat \<Rightarrow> npfloat" where
  "fneg (Num x) = Num (- x)"
| "fneg PInf = NInf"
| "fneg NInf = PInf"
| "fneg NaN = NaN"

fun fadd :: "npfloat \<Rightarrow> npfloat \<Rightarrow> npfloat" where
  "fadd (Num x) (Num y) = Num (x + y)"
| "fadd (Num x) PInf = PInf"
| "fadd (Num x) NInf = NInf"
| "fadd PInf (Num y) = PInf"
| "fadd PInf PInf = PInf"
| "fadd NInf (Num y) = NInf"
| "fadd NInf NInf = NInf"
| "fadd _ _ = NaN"

definition fsub :: "npfloat \<Rightarrow> npfloat \<Rightarrow> npfloat" where
  "fsub a b = fadd a (fneg b)"

fun fmul :: "npfloat \<Rightarrow> npfloat \<Rightarrow> npfloat" where
  "fmul (Num x) (Num y) = Num (x * y)"
| "fmul (Num x) PInf = (if x = 0 then NaN else if 0 < x then PInf else NInf)"
| "fmul (Num x) NInf = (if x = 0 then NaN else if 0 < x then NInf else PInf)"
| "fmul PInf (Num y) = (if y = 0 then NaN else if 0 < y then PInf else NInf)"
| "fmul NInf (Num y) = (if y = 0 then NaN else if 0 < y then NInf else PInf)"
| "fmul PInf PInf = PInf"
| "fmul PInf NInf = NInf"
| "fmul NInf PInf = NInf"
| "fmul NInf NInf = PInf"
| "fmul _ _ = NaN"

fun fdiv :: "npfloat \<Rightarrow> npfloat \<Rightarrow> npfloat" where
  "fdiv (Num x) (Num y) =
     (if y \<noteq> 0 then Num (x / y)
      else if x = 0 then NaN else if 0 < x then PInf else NInf)"
| "fdiv (Num x) PInf = Num 0"
| "fdiv (Num x) NInf = Num 0"
| "fdiv PInf (Num y) = (if 0 \<le> y then PInf else NInf)"
| "fdiv NInf (Num y) = (if 0 \<le> y then NInf else PInf)"
| "fdiv _ _ = NaN"

fun fsqrt :: "npfloat \<Rightarrow> npfloat" where
  "fsqrt (Num x) = (if 0 \<le> x then Num (sqrt x) else NaN)"
| "fsqrt PInf = PInf"
| "fsqrt _ = NaN"

text \<open>The comparisons \<open><=\<close> and \<open>>\<close>: false as soon as an operand is not-a-number.\<close>

fun fle :: "npfloat \<Rightarrow> npfloat \<Rightarrow> bool" where
  "fle (Num x) (Num y) = (x \<le> y)"
| "fle NaN _ = False"
| "fle _ NaN = False"
| "fle NInf _ = True"
| "fle _ PInf = True"
| "fle _ _ = False"

fun fgt :: "npfloat \<Rightarrow> npfloat \<Rightarrow> bool" where
  "fgt (Num x) (Num y) = (y < x)"
| "fgt NaN _ = False"
| "fgt _ NaN = False"
| "fgt PInf PInf = False"
| "fgt PInf _ = True"
| "fgt NInf _ = False"
| "fgt _ NInf = True"

text \<open>
  \<open>x ** y\<close> for a \<open>float64\<close> \<open>x\<close> and a finite Python float \<open>y\<close>, after C's
  \<open>pow\<close>: a negative base has a power only for an integer exponent.
\<close>

fun fpow :: "npfloat \<Rightarrow> real \<Rightarrow> npfloat" where
  "fpow (Num x) y =
     (if y = 0 \<or> x = 1 then Num 1
      else if 0 < x then Num (x powr y)
      else if x = 0 then (if 0 < y then Num 0 else PInf)
      else if y = of_int \<lfloor>y\<rfloor> then Num (x powi \<lfloor>y\<rfloor>)
      else NaN)"
| "fpow PInf y = (if y = 0 then Num 1 else if 0 < y then PInf else Num 0)"
| "fpow NInf y =
     (if y = 0 then Num 1
      else if 0 < y then (if y = of_int \<lfloor>y\<rfloor> \<and> odd \<lfloor>y\<rfloor> then NInf else PInf)
      else Num 0)"
| "fpow NaN y = (if y = 0 then Num 1 else NaN)"

text \<open>Truth value of a \<open>float64\<close>: only zero is false (not-a-number is true).\<close>

definition truthy :: "npfloat \<Rightarrow> bool" where
  "truthy v = (v \<noteq> Num 0)"

subsection \<open>Series operations of pandas\<close>

definition series_sum :: "npfloat list \<Rightarrow> npfloat" where
  "series_sum xs = foldl fadd (Num 0) xs"

text \<open>
  \<open>Series.std()\<close>: the sample standard deviation (\<open>ddof=1\<close>) of the entries that
  are not not-a-number; not-a-number when fewer than two of them are left. It is computed
  here without rounding. The \<open>float64\<close> result can differ from it in the last bits, and
  for equal entries other than zero it need not be exactly zero as it is here; for a
  series of zeros both are exactly zero, and the statements below use the deviation at
  such series only.
\<close>

definition series_std :: "npfloat list \<Rightarrow> npfloat" where
  "series_std xs =
     (let vs = filter (\<lambda>v. v \<noteq> NaN) xs; n = length vs
      in if n \<le> 1 then NaN
         else let avg = fdiv (series_sum vs) (Num (real n));
                  sqr = map (\<lambda>v. fmul (fsub avg v) (fsub avg v)) vs
              in fsqrt (fdiv (series_sum sqr) (Num (real n - 1))))"

text \<open>\<open>Series.max()\<close>: the largest entry that is not not-a-number.\<close>

definition fmax :: "npfloat \<Rightarrow> npfloat \<Rightarrow> npfloat" where
  "fmax a b = (if fgt b a then b else a)"

definition series_max :: "npfloat list \<Rightarrow> npfloat" where
  "series_max xs =
     (case filter (\<lambda>v. v \<noteq> NaN) xs of [] \<Rightarrow> NaN | v # vs \<Rightarrow> foldl fmax v vs)"

text \<open>\<open>Series.pct_change()\<close>: each entry over the one before, minus one.\<close>

fun pct_change :: "npfloat list \<Rightarrow> npfloat list" where
  "pct_change [] = []"
| "pct_change (x # xs) =
     NaN # map (\<lambda>(prev, cur). fsub (fdiv cur prev) (Num 1)) (zip (x # xs) xs)"

text \<open>\<open>Series.cumprod()\<close>: running product; a not-a-number entry is passed over.\<close>

fun cumprod_from :: "npfloat \<Rightarrow> npfloat list \<Rightarrow> npfloat list" where
  "cumprod_from acc [] = []"
| "cumprod_from acc (x # xs) =
     (if x = NaN then NaN # cumprod_from acc xs
      else fmul acc x # cumprod_from (fmul acc x) xs)"

definition cumprod :: "npfloat list \<Rightarrow> npfloat list" where
  "cumprod xs = cumprod_from (Num 1) xs"

text \<open>\<open>Series.clip(upper=u)\<close>.\<close>

definition clip_upper :: "npfloat \<Rightarrow> npfloat \<Rightarrow> npfloat" where
  "clip_upper u v = (if fgt v u then u else v)"

section \<open>Dates\<close>

text \<open>
  A trading date is a triple (year, month, day), compared lexicographically. The number
  of days between two dates is the difference of their ordinals, computed as Python's
  \<open>datetime\<close> does.
\<close>

type_synonym date = "int \<times> int \<times> int"

definition year :: "date \<Rightarrow> int" where
  "year d = fst d"

definition is_leap :: "int \<Rightarrow> bool" where
  "is_leap y = (if y mod 100 = 0 then y mod 400 = 0 else y mod 4 = 0)"

definition days_before_year :: "int \<Rightarrow> int" where
  "days_before_year y = (y - 1) * 365 + (y - 1) div 4 - (y - 1) div 100 + (y - 1) div 400"

definition days_before_month :: "int \<Rightarrow> int \<Rightarrow> int" where
  "days_before_month y m =
     sum_list (take (nat (m - 1)) [31, 28, 31, 30, 31, 30, 31, 31, 30, 31, 30, 31])
       + (if 2 < m \<and> is_leap y then 1 else 0)"

definition toordinal :: "date \<Rightarrow> int" where
  "toordinal d =
     (case d of (y, m, dd) \<Rightarrow> days_before_year y + days_before_month y m + dd)"

section \<open>The provider's table\<close>

text \<open>
  The table that \<open>yf.download\<close> returns: a date index, column labels that are
  either plain names or two-level (field, ticker) pairs, and one series per column
  (\<open>data\<close> is column-major, each series as long as the index).
\<close>

datatype columns = Index "string list" | MultiIndex "(string \<times> string) list"

record frame =
  columns :: columns
  index :: "date list"
  data :: "npfloat list list"

text \<open>\<open>get_level_values(0)\<close>; a plain index has one level only.\<close>

fun get_level_values0 :: "columns \<Rightarrow> string list" where
  "get_level_values0 (Index ns) = ns"
| "get_level_values0 (MultiIndex cs) = map fst cs"

text \<open>
  \<^verbatim>\<open>
  if isinstance(df.columns, pd.MultiIndex):
      df.columns = df.columns.get_level_values(0)
  return df
  \<close>
\<close>

definition flatten :: "frame \<Rightarrow> frame" where
  "flatten df =
     (case columns df of
        MultiIndex cs \<Rightarrow> df\<lparr>columns := Index (get_level_values0 (MultiIndex cs))\<rparr>
      | Index ns \<Rightarrow> df)"

text \<open>\<open>df.empty\<close>: no row or no column.\<close>

definition empty :: "frame \<Rightarrow> bool" where
  "empty df = (index df = [] \<or> get_level_values0 (columns df) = [])"

definition lacks_column :: "frame \<Rightarrow> string \<Rightarrow> bool" where
  "lacks_column df name = (name \<notin> set (get_level_values0 (columns df)))"

text \<open>\<open>df[mask]\<close> for a mask computed from the date of each row.\<close>

definition select_rows :: "(date \<Rightarrow> bool) \<Rightarrow> frame \<Rightarrow> frame" where
  "select_rows keep df =
     df\<lparr>index := filter keep (index df),
        data := map (\<lambda>c. map snd (filter (\<lambda>(d, v). keep d) (zip (index df) c))) (data df)\<rparr>"

text \<open>\<open>df[name]\<close>: the series under that label; several when the label is repeated.\<close>

definition select_column :: "frame \<Rightarrow> string \<Rightarrow> npfloat list list" where
  "select_column df name =
     map snd (filter (\<lambda>(n, c). n = name) (zip (get_level_values0 (columns df)) (data df)))"

section \<open>Price rows, return rows and the performance summary\<close>

record price_row =
  Date :: date
  Adj_Close :: npfloat

record ret_row = price_row +
  Return :: npfloat
  CumReturn :: npfloat

record out_row = ret_row +
  Downside :: npfloat

record metrics =
  start :: date
  end' :: date
  years :: real
  cum :: npfloat
  ann :: npfloat
  std :: npfloat
  sharpe :: npfloat
  sortino :: npfloat

text \<open>
  The failures. The first three are the \<open>ValueError\<close>s that the function raises
  itself (the date one says which bound); \<open>IndexError\<close> and \<open>ZeroDivisionError\<close>
  are raised by \<open>iloc[0]\<close> and by \<open>1/years\<close>; \<open>MultipleColumns\<close> is the
  \<open>ValueError\<close> of pandas when a two-column selection is assigned to one column;
  \<open>InsufficientReturn\<close> is the warning of the retirement estimate.
\<close>

datatype bound = StartDate | EndDate

datatype error =
    DataUnavailable
  | InvalidDateFormat bound
  | EmptyRange
  | MultipleColumns
  | IndexError
  | ZeroDivisionError
  | InsufficientReturn

definition risk_free_rate :: npfloat where
  "risk_free_rate = Num 0"

section \<open>\<open>fetch_price_and_metrics\<close>\<close>

text \<open>
  The download is the argument \<open>raw_df\<close>, and \<open>pd.to_datetime\<close> is the argument
  \<open>to_datetime\<close> (\<open>None\<close> where it raises). The function is modelled in three
  parts, in the order of the source: loading and filtering the prices, deriving the
  returns, computing the summary.
\<close>

text \<open>
  One date bound:
  \<^verbatim>\<open>
  if start_date:
      try: sd = pd.to_datetime(start_date)
      except: raise ValueError(...)
      df = df[df["Date"] >= sd]
  \<close>
  and the same with \<open><=\<close> for the end date. A bound that is \<open>None\<close> or the empty
  string is skipped.
\<close>

definition filter_date ::
  "(pystr \<Rightarrow> date option) \<Rightarrow> bound \<Rightarrow> pystr option \<Rightarrow> frame \<Rightarrow> error + frame" where
  "filter_date to_datetime b s df =
     (case s of
        None \<Rightarrow> Inr df
      | Some t \<Rightarrow>
          if t = [] then Inr df
          else (case to_datetime t of
                  None \<Rightarrow> Inl (InvalidDateFormat b)
                | Some d \<Rightarrow>
                    Inr (select_rows (\<lambda>x. if b = StartDate then d \<le> x else x \<le> d) df)))"

text \<open>
  From the download to the price rows: \<open>flatten\<close>, the check for data, the two date
  bounds, the check for an empty range, and the selection of the adjusted close (where
  pandas raises at the assignment of \<open>Return\<close> if the label is not unique).
\<close>

definition load_prices ::
  "(pystr \<Rightarrow> date option) \<Rightarrow> frame \<Rightarrow> pystr option \<Rightarrow> pystr option
     \<Rightarrow> error + price_row list" where
  "load_prices to_datetime raw_df start_date end_date =
     (let df = flatten raw_df
      in if empty df \<or> lacks_column df ''Adj Close'' then Inl DataUnavailable
         else
           (case filter_date to_datetime StartDate start_date df of
              Inl e \<Rightarrow> Inl e
            | Inr df1 \<Rightarrow>
                (case filter_date to_datetime EndDate end_date df1 of
                   Inl e \<Rightarrow> Inl e
                 | Inr df2 \<Rightarrow>
                     if empty df2 then Inl EmptyRange
                     else
                       (case select_column df2 ''Adj Close'' of
                          [c] \<Rightarrow>
                            Inr (map (\<lambda>(d, v). \<lparr>Date = d, Adj_Close = v\<rparr>)
                                   (zip (index df2) c))
                        | _ \<Rightarrow> Inl MultipleColumns))))"

text \<open>
  \<^verbatim>\<open>
  df["Return"] = df["Adj Close"].pct_change()
  df.dropna(subset=["Return"], inplace=True)
  df["CumReturn"] = (1 + df["Return"]).cumprod() - 1
  \<close>
\<close>

definition add_returns :: "price_row list \<Rightarrow> ret_row list" where
  "add_returns rows =
     (let kept = filter (\<lambda>(r, x). x \<noteq> NaN) (zip rows (pct_change (map Adj_Close rows)));
          cums = map (\<lambda>c. fsub c (Num 1)) (cumprod (map (\<lambda>(r, x). fadd (Num 1) x) kept))
      in map (\<lambda>((r, x), c).
                \<lparr>Date = Date r, Adj_Close = Adj_Close r, Return = x, CumReturn = c\<rparr>)
           (zip kept cums))"

text \<open>\<open>df["Downside"] = df["Return"].clip(upper=0)\<close>\<close>

definition add_downside :: "ret_row list \<Rightarrow> out_row list" where
  "add_downside df =
     map (\<lambda>r. \<lparr>Date = Date r, Adj_Close = Adj_Close r, Return = Return r,
               CumReturn = CumReturn r, Downside = clip_upper (Num 0) (Return r)\<rparr>) df"

text \<open>
  The summary, from \<open>t0, t1 = df["Date"].iloc[0], df["Date"].iloc[-1]\<close> to the
  \<open>return\<close>. \<open>iloc[0]\<close> raises on a table without rows; \<open>years\<close> is a Python
  float, so \<open>1/years\<close> raises when it is zero.
\<close>

definition compute_metrics :: "ret_row list \<Rightarrow> error + out_row list \<times> metrics" where
  "compute_metrics df =
     (if df = [] then Inl IndexError
      else
        let t0 = Date (hd df); t1 = Date (last df);
            years = real_of_int (toordinal t1 - toordinal t0) / 365.25
        in if years = 0 then Inl ZeroDivisionError
           else
             let cagr = fsub (fpow (fdiv (Adj_Close (last df)) (Adj_Close (hd df))) (1 / years))
                          (Num 1);
                 std_annual = fmul (series_std (map Return df)) (Num (sqrt 252));
                 sharpe = fdiv (fsub cagr risk_free_rate) std_annual;
                 df' = add_downside df;
                 d_std = fmul (series_std (map Downside df')) (Num (sqrt 252));
                 sortino = (if truthy d_std then fdiv (fsub cagr risk_free_rate) d_std else NaN)
             in Inr (df',
                  \<lparr>start = t0, end' = t1, years = years,
                   cum = fmul (CumReturn (last df)) (Num 100),
                   ann = fmul cagr (Num 100),
                   std = fmul std_annual (Num 100),
                   sharpe = sharpe, sortino = sortino\<rparr>))"

definition fetch_price_and_metrics ::
  "(pystr \<Rightarrow> date option) \<Rightarrow> frame \<Rightarrow> pystr option \<Rightarrow> pystr option
     \<Rightarrow> error + out_row list \<times> metrics" where
  "fetch_price_and_metrics to_datetime raw_df start_date end_date =
     (case load_prices to_datetime raw_df start_date end_date of
        Inl e \<Rightarrow> Inl e
      | Inr rows \<Rightarrow> compute_metrics (add_returns rows))"

section \<open>\<open>calculate_retirement\<close>\<close>

record year_row =
  Year :: int
  end_date :: date
  end_price :: npfloat
  annual_return :: npfloat
  cum_return :: npfloat

text \<open>
  The row of a group at \<open>g["Date"].idxmax()\<close> and at \<open>idxmin()\<close>: the first row
  with the greatest, respectively the least, date.
\<close>

definition idxmax_row :: "out_row \<Rightarrow> out_row list \<Rightarrow> out_row" where
  "idxmax_row r rs = foldl (\<lambda>best x. if Date best < Date x then x else best) r rs"

definition idxmin_row :: "out_row \<Rightarrow> out_row list \<Rightarrow> out_row" where
  "idxmin_row r rs = foldl (\<lambda>best x. if Date x < Date best then x else best) r rs"

text \<open>
  The function applied to each group of \<open>groupby("Year")\<close>:
  \<^verbatim>\<open>
  "end_date": g["Date"].max().date(),
  "end_price": g.loc[g["Date"].idxmax(), "Adj Close"],
  "annual_return": (g.loc[g["Date"].idxmax(), "Adj Close"]
                    / g.loc[g["Date"].idxmin(), "Adj Close"] - 1) * 100,
  "cum_return": g["CumReturn"].max() * 100
  \<close>
\<close>

definition group_row :: "int \<Rightarrow> out_row list \<Rightarrow> year_row option" where
  "group_row y g =
     (case g of
        [] \<Rightarrow> None
      | r # rs \<Rightarrow>
          Some \<lparr>Year = y,
                end_date = Date (idxmax_row r rs),
                end_price = Adj_Close (idxmax_row r rs),
                annual_return =
                  fmul (fsub (fdiv (Adj_Close (idxmax_row r rs)) (Adj_Close (idxmin_row r rs)))
                          (Num 1)) (Num 100),
                cum_return = fmul (series_max (map CumReturn g)) (Num 100)\<rparr>)"

text \<open>\<open>groupby("Year")\<close>: one group per year of the table, the years ascending.\<close>

definition year_summary :: "out_row list \<Rightarrow> year_row list" where
  "year_summary df =
     List.map_filter (\<lambda>y. group_row y (filter (\<lambda>r. year (Date r) = y) df))
       (sorted_list_of_set (set (map (\<lambda>r. year (Date r)) df)))"

text \<open>
  The part of \<open>calculate_retirement\<close> after the call of \<open>fetch_price_and_metrics\<close>,
  whose result is \<open>fetched\<close>: a failure of the call ends the function; then
  \<^verbatim>\<open>
  real_withdraw = (m["ann"] / 100) - infl
  if real_withdraw <= 0: (warning) return
  need_capital = expense / real_withdraw
  \<close>
  and the table of the years. The result is the required capital and the rows of the
  table; the plot and the formatting of the numbers as text are left out.
\<close>

definition estimate_and_table ::
  "npfloat \<Rightarrow> npfloat \<Rightarrow> error + out_row list \<times> metrics \<Rightarrow> error + npfloat \<times> year_row list" where
  "estimate_and_table expense infl fetched =
     (case fetched of
        Inl e \<Rightarrow> Inl e
      | Inr (df, m) \<Rightarrow>
          let real_withdraw = fsub (fdiv (ann m) (Num 100)) infl
          in if fle real_withdraw (Num 0) then Inl InsufficientReturn
             else Inr (fdiv expense real_withdraw, year_summary df))"

text \<open>
  The whole function, on the values read from the form: the expense and the inflation
  rate (in percent) already converted by \<open>float\<close>, the two date fields as typed.
  \<^verbatim>\<open>
  infl = float(entry_infl.get()) / 100
  start_date = entry_ret_start.get().strip()
  df, m = fetch_price_and_metrics(ticker, start_date if start_date else None, ...)
  \<close>
\<close>

definition entry_date :: "pystr \<Rightarrow> pystr option" where
  "entry_date s = (if strip s = [] then None else Some (strip s))"

definition calculate_retirement ::
  "(pystr \<Rightarrow> date option) \<Rightarrow> frame \<Rightarrow> npfloat \<Rightarrow> npfloat \<Rightarrow> pystr \<Rightarrow> pystr
     \<Rightarrow> error + npfloat \<times> year_row list" where
  "calculate_retirement to_datetime raw_df expense infl_percent start_entry end_entry =
     estimate_and_table expense (fdiv infl_percent (Num 100))
       (fetch_price_and_metrics to_datetime raw_df (entry_date start_entry) (entry_date end_entry))"

section \<open>Example inputs\<close>

text \<open>A \<open>to_datetime\<close> that rejects every string, and one that reads a single date.\<close>

definition no_datetime :: "pystr \<Rightarrow> date option" where
  "no_datetime s = None"

definition one_datetime :: "pystr \<Rightarrow> date option" where
  "one_datetime s = (if s = ascii ''2024-01-03'' then Some (2024, 1, 3) else None)"

text \<open>
  A fragment of the uppercase table beyond ASCII: U+00DF becomes \<open>SS\<close>, every other
  code point is kept.
\<close>

definition latin_toupper :: "nat \<Rightarrow> pystr" where
  "latin_toupper c = (if c = 0xDF then ascii ''SS'' else [c])"

text \<open>A single-level table with the prices \<open>ps\<close> on the dates \<open>ds\<close>.\<close>

definition price_table :: "date list \<Rightarrow> real list \<Rightarrow> frame" where
  "price_table ds ps =
     \<lparr>columns = Index [''Adj Close'', ''Volume''], index = ds,
      data = [map Num ps, map (\<lambda>p. Num 1000) ps]\<rparr>"

text \<open>The same table as a download of one ticker with two-level labels.\<close>

definition multi_table :: "date list \<Rightarrow> real list \<Rightarrow> frame" where
  "multi_table ds ps =
     \<lparr>columns = MultiIndex [(''Adj Close'', ''AAPL''), (''Volume'', ''AAPL'')], index = ds,
      data = [map Num ps, map (\<lambda>p. Num 1000) ps]\<rparr>"

definition three_days :: "date list" where
  "three_days = [(2024, 1, 2), (2024, 1, 3), (2024, 1, 4)]"

definition four_days :: "date list" where
  "four_days = [(2024, 1, 2), (2024, 1, 3), (2024, 1, 4), (2024, 1, 5)]"

text \<open>A performance summary with an annualized return of 7 percent, and one with 1 percent.\<close>

definition seven_percent :: metrics where
  "seven_percent =
     \<lparr>start = (2014, 1, 2), end' = (2024, 1, 2), years = 3652 / 365.25, cum = Num 96,
      ann = Num 7, std = Num 15, sharpe = Num (7 / 15), sortino = NaN\<rparr>"

definition one_percent :: metrics where
  "one_percent =
     \<lparr>start = (2014, 1, 2), end' = (2024, 1, 2), years = 3652 / 365.25, cum = Num 10,
      ann = Num 1, std = Num 15, sharpe = Num (1 / 15), sortino = NaN\<rparr>"

text \<open>
  The rows that \<open>fetch_price_and_metrics\<close> returns for the prices 100, 110, 150, 120
  on four days of one year: the cumulative return peaks on the second of them.
\<close>

definition peak_rows :: "out_row list" where
  "peak_rows =
     [\<lparr>Date = (2024, 1, 3), Adj_Close = Num 110, Return = Num (1 / 10),
       CumReturn = Num (1 / 10), Downside = Num 0\<rparr>,
      \<lparr>Date = (2024, 1, 4), Adj_Close = Num 150, Return = Num (4 / 11),
       CumReturn = Num (1 / 2), Downside = Num 0\<rparr>,
      \<lparr>Date = (2024, 1, 5), Adj_Close = Num 120, Return = Num (- 1 / 5),
       CumReturn = Num (1 / 5), Downside = Num (- 1 / 5)\<rparr>]"

section \<open>Auxiliary notions of the statements\<close>

text \<open>A price that is a number other than zero, as every observation of a price series is.\<close>

fun priced :: "npfloat \<Rightarrow> bool" where
  "priced (Num x) = (x \<noteq> 0)"
| "priced v = False"

text \<open>The returns of a series after its first entry, as \<open>pct_change\<close> computes them.\<close>

definition ratios :: "npfloat list \<Rightarrow> npfloat list" where
  "ratios ps = map (\<lambda>(prev, cur). fsub (fdiv cur prev) (Num 1)) (zip ps (tl ps))"

section \<open>Properties of \<open>format_ticker\<close>\<close>

lemma strip_decomp:
  "\<exists>pre post. raw = pre @ strip raw @ post \<and> list_all is_space pre \<and> list_all is_space post"
proof -
  let ?a = "dropWhile is_space raw"
  have 1: "raw = takeWhile is_space raw @ ?a" by simp
  have 2: "rev ?a = takeWhile is_space (rev ?a) @ dropWhile is_space (rev ?a)" by simp
  have 3: "?a = strip raw @ rev (takeWhile is_space (rev ?a))"
    unfolding strip_def by (metis 2 rev_append rev_rev_ident)
  have 4: "list_all is_space (takeWhile is_space raw)"
    by (simp add: list_all_iff) (meson set_takeWhileD)
  have 5: "list_all is_space (rev (takeWhile is_space (rev ?a)))"
    by (simp add: list_all_iff) (meson set_takeWhileD)
  from 1 3 have "raw = takeWhile is_space raw @ strip raw @ rev (takeWhile is_space (rev ?a))"
    by metis
  with 4 5 show ?thesis by blast
qed

lemma set_strip: "set (strip raw) \<subseteq> set raw"
proof -
  from strip_decomp [of raw] obtain pre post where "raw = pre @ strip raw @ post" by blast
  then have "set raw = set pre \<union> set (strip raw) \<union> set post" by (metis set_append Un_assoc)
  then show ?thesis by blast
qed

lemma upper_ascii_only:
  assumes "list_all (\<lambda>c. c < 128) s"
  shows "upper toupper s = map (\<lambda>c. if 97 \<le> c \<and> c \<le> 122 then c - 32 else c) s"
  using assms by (induction s) (simp_all add: upper_def upper_ascii_def)

lemma upper_ascii_no_small:
  assumes "list_all (\<lambda>c. c < 128) s"
  shows "list_all (\<lambda>c. \<not> (97 \<le> c \<and> c \<le> 122)) (upper toupper s)"
  unfolding upper_ascii_only [OF assms] by (auto simp: list_all_iff)

lemma suffix_cases:
  "(case map_of suffixes market of Some s \<Rightarrow> s | None \<Rightarrow> []) =
     (if market = market_TW then ascii ''.TW'' else if market = market_JP then ascii ''.T''
      else if market = market_UK then ascii ''.L'' else [])"
  by (simp add: suffixes_def)

lemmas ticker_defs =
  format_ticker_def suffixes_def market_TW_def market_US_def market_JP_def market_UK_def
  upper_def upper_ascii_def strip_def is_space_def ascii_def

lemma dropWhile_rev_hd:
  assumes "dropWhile P (rev xs) \<noteq> []"
  shows "hd (rev (dropWhile P (rev xs))) = hd xs"
proof -
  have "rev xs = takeWhile P (rev xs) @ dropWhile P (rev xs)" by simp
  then have "xs = rev (dropWhile P (rev xs)) @ rev (takeWhile P (rev xs))"
    by (metis rev_append rev_rev_ident)
  then have "hd xs = hd (rev (dropWhile P (rev xs)) @ rev (takeWhile P (rev xs)))" by simp
  with assms show ?thesis by simp
qed

lemma strip_ends:
  assumes "strip raw \<noteq> []"
  shows "\<not> is_space (hd (strip raw)) \<and> \<not> is_space (last (strip raw))"
proof -
  let ?a = "dropWhile is_space raw"
  let ?b = "dropWhile is_space (rev ?a)"
  from assms have b: "?b \<noteq> []" by (simp add: strip_def)
  then have "\<not> is_space (hd ?b)" by (rule hd_dropWhile)
  with b have l: "\<not> is_space (last (strip raw))" by (simp add: strip_def last_rev)
  have a: "?a \<noteq> []"
  proof
    assume e: "?a = []"
    have "?b = []" unfolding e by simp
    with b show False by blast
  qed
  then have "\<not> is_space (hd ?a)" by (rule hd_dropWhile)
  moreover have "hd (strip raw) = hd ?a"
    unfolding strip_def using b by (rule dropWhile_rev_hd)
  ultimately show ?thesis using l by simp
qed


text \<open>
  Claim C8. For every raw symbol and market selector, \<open>format_ticker\<close> returns the
  trimmed and uppercased symbol followed by the suffix of the market: none for the
  domestic market, \<open>.TW\<close>, \<open>.T\<close>, \<open>.L\<close> for Taiwan, Japan and the UK, none for any
  other value. The trimmed symbol is the raw one without its leading and trailing
  white space (that of Unicode, not only of ASCII); uppercasing replaces every code
  point by its uppercase mapping, so that a symbol written in ASCII keeps its length
  and has no letter of \<open>a..z\<close> left. In particular
  \<open>format_ticker "0050" Taiwan = "0050.TW"\<close> and \<open>format_ticker " aapl " Domestic = "AAPL"\<close>;
  an ideographic space and a no-break space around the symbol are trimmed as well, and
  a sharp s becomes \<open>SS\<close>.
\<close>

theorem format_ticker_rule:
  "format_ticker toupper raw market =
     upper toupper (strip raw) @
       (if market = market_US then []
        else if market = market_TW then ascii ''.TW''
        else if market = market_JP then ascii ''.T''
        else if market = market_UK then ascii ''.L''
        else [])
   \<and> (\<exists>pre post. raw = pre @ strip raw @ post \<and> list_all is_space pre \<and> list_all is_space post)
   \<and> (strip raw \<noteq> [] \<longrightarrow> \<not> is_space (hd (strip raw)) \<and> \<not> is_space (last (strip raw)))
   \<and> upper toupper (strip raw) =
        concat (map (\<lambda>c. if c < 128 then [if 97 \<le> c \<and> c \<le> 122 then c - 32 else c]
                          else toupper c) (strip raw))
   \<and> (list_all (\<lambda>c. c < 128) raw \<longrightarrow>
        length (upper toupper (strip raw)) = length (strip raw)
        \<and> list_all (\<lambda>c. \<not> (97 \<le> c \<and> c \<le> 122)) (upper toupper (strip raw)))
   \<and> format_ticker toupper (ascii ''0050'') market_TW = ascii ''0050.TW''
   \<and> format_ticker toupper (ascii '' aapl '') market_US = ascii ''AAPL''
   \<and> format_ticker toupper (0x3000 # ascii ''aapl'' @ [0xA0]) market_JP = ascii ''AAPL.T''
   \<and> (toupper 0xDF = ascii ''SS'' \<longrightarrow>
        format_ticker toupper (ascii ''stra'' @ [0xDF] @ ascii ''e'') market_UK
          = ascii ''STRASSE.L'')"
proof -
  have a: "format_ticker toupper raw market =
     upper toupper (strip raw) @
       (if market = market_US then []
        else if market = market_TW then ascii ''.TW''
        else if market = market_JP then ascii ''.T''
        else if market = market_UK then ascii ''.L''
        else [])"
    by (simp add: format_ticker_def suffix_cases)
  have u: "upper toupper (strip raw) =
        concat (map (\<lambda>c. if c < 128 then [if 97 \<le> c \<and> c \<le> 122 then c - 32 else c]
                          else toupper c) (strip raw))"
    unfolding upper_def upper_ascii_def ..
  have l: "length (upper toupper (strip raw)) = length (strip raw)
        \<and> list_all (\<lambda>c. \<not> (97 \<le> c \<and> c \<le> 122)) (upper toupper (strip raw))"
    if "list_all (\<lambda>c. c < 128) raw"
  proof -
    from that set_strip [of raw] have s: "list_all (\<lambda>c. c < 128) (strip raw)"
      by (auto simp: list_all_iff)
    from upper_ascii_only [OF s, of toupper] upper_ascii_no_small [OF s, of toupper]
    show ?thesis by simp
  qed
  have b: "format_ticker toupper (ascii ''0050'') market_TW = ascii ''0050.TW''"
    by (simp add: ticker_defs)
  have c: "format_ticker toupper (ascii '' aapl '') market_US = ascii ''AAPL''"
    by (simp add: ticker_defs)
  have d: "format_ticker toupper (0x3000 # ascii ''aapl'' @ [0xA0]) market_JP = ascii ''AAPL.T''"
    by (simp add: ticker_defs)
  have e: "format_ticker toupper (ascii ''stra'' @ [0xDF] @ ascii ''e'') market_UK
          = ascii ''STRASSE.L''" if "toupper 0xDF = ascii ''SS''"
    using that by (simp add: ticker_defs)
  from a u l b c d e strip_decomp [of raw] strip_ends [of raw]
  show ?thesis by blast
qed

theorem format_ticker_rule_witness:
  "strip (ascii '' stra'' @ [0xDF] @ ascii ''e '') \<noteq> []
   \<and> \<not> is_space (hd (strip (ascii '' stra'' @ [0xDF] @ ascii ''e '')))
   \<and> \<not> is_space (last (strip (ascii '' stra'' @ [0xDF] @ ascii ''e '')))
   \<and> latin_toupper 0xDF = ascii ''SS''
   \<and> format_ticker latin_toupper (ascii ''stra'' @ [0xDF] @ ascii ''e'') market_UK
       = ascii ''STRASSE.L''
   \<and> list_all (\<lambda>c. c < 128) (ascii '' aapl '')
   \<and> list_all (\<lambda>c. \<not> (97 \<le> c \<and> c \<le> 122)) (upper latin_toupper (strip (ascii '' aapl '')))"
proof -
  let ?raw = "ascii '' stra'' @ [0xDF] @ ascii ''e ''"
  have s: "strip ?raw \<noteq> []"
    by (simp add: strip_def is_space_def ascii_def)
  have t: "latin_toupper 0xDF = ascii ''SS''" by (simp add: latin_toupper_def)
  have a: "list_all (\<lambda>c. c < 128) (ascii '' aapl '')" by (simp add: ascii_def)
  from format_ticker_rule [of latin_toupper ?raw market_UK] s
  have 1: "\<not> is_space (hd (strip ?raw)) \<and> \<not> is_space (last (strip ?raw))" by blast
  from format_ticker_rule [of latin_toupper ?raw market_UK] t
  have 2: "format_ticker latin_toupper (ascii ''stra'' @ [0xDF] @ ascii ''e'') market_UK
       = ascii ''STRASSE.L''" by blast
  from format_ticker_rule [of latin_toupper "ascii '' aapl ''" market_US] a
  have 3: "list_all (\<lambda>c. \<not> (97 \<le> c \<and> c \<le> 122))
             (upper latin_toupper (strip (ascii '' aapl '')))" by blast
  from s t a 1 2 3 show ?thesis by blast
qed

section \<open>Properties of \<open>flatten\<close> and of the checks of the data\<close>

lemma get_level_values0_flatten:
  "get_level_values0 (columns (flatten df)) = get_level_values0 (columns df)"
  by (cases "columns df") (simp_all add: flatten_def)

lemma index_flatten: "index (flatten df) = index df"
  by (cases "columns df") (simp_all add: flatten_def)

lemma flatten_multi:
  assumes "columns multi = MultiIndex cs"
  shows "flatten multi = multi\<lparr>columns := Index (map fst cs)\<rparr>"
  using assms by (simp add: flatten_def)

lemma flatten_single:
  assumes "columns single = Index ns"
  shows "flatten single = single"
  using assms by (simp add: flatten_def)

lemmas load_defs =
  load_prices_def flatten_def empty_def lacks_column_def filter_date_def select_column_def
  select_rows_def price_table_def multi_table_def

lemmas ordinal_defs = toordinal_def days_before_year_def days_before_month_def is_leap_def

text \<open>
  Claim C9. The check for missing data comes before the dates are read: when the
  download has no row, no column or no adjusted close, \<open>fetch_price_and_metrics\<close>
  fails with \<open>DataUnavailable\<close> whatever the two date strings are and whatever
  \<open>to_datetime\<close> does with them, so never with \<open>InvalidDateFormat\<close>.
\<close>

theorem data_check_first:
  assumes "index raw_df = [] \<or> get_level_values0 (columns raw_df) = []
           \<or> ''Adj Close'' \<notin> set (get_level_values0 (columns raw_df))"
  shows "fetch_price_and_metrics to_datetime raw_df sd ed = Inl DataUnavailable
         \<and> fetch_price_and_metrics to_datetime raw_df sd ed \<noteq> Inl (InvalidDateFormat b)"
proof -
  from assms have "empty (flatten raw_df) \<or> lacks_column (flatten raw_df) ''Adj Close''"
    by (auto simp: empty_def lacks_column_def get_level_values0_flatten index_flatten)
  then have "load_prices to_datetime raw_df sd ed = Inl DataUnavailable"
    by (simp add: load_prices_def)
  then show ?thesis by (simp add: fetch_price_and_metrics_def)
qed

theorem data_check_first_witness:
  "index (price_table [] []) = []
   \<and> no_datetime (ascii ''31/31/31'') = None
   \<and> fetch_price_and_metrics no_datetime (price_table [] []) (Some (ascii ''31/31/31'')) None
       = Inl DataUnavailable"
proof -
  have h: "index (price_table [] []) = []" by (simp add: price_table_def)
  then have "index (price_table [] []) = []
      \<or> get_level_values0 (columns (price_table [] [])) = []
      \<or> ''Adj Close'' \<notin> set (get_level_values0 (columns (price_table [] [])))"
    by simp
  from data_check_first [OF this, of no_datetime "Some (ascii ''31/31/31'')" None StartDate] h
  show ?thesis by (simp add: no_datetime_def)
qed

lemma flat_load:
  "load_prices no_datetime (price_table three_days [100, 100, 100]) None None
     = Inr [\<lparr>Date = (2024, 1, 2), Adj_Close = Num 100\<rparr>,
            \<lparr>Date = (2024, 1, 3), Adj_Close = Num 100\<rparr>,
            \<lparr>Date = (2024, 1, 4), Adj_Close = Num 100\<rparr>]"
  by (simp add: load_defs three_days_def)

lemma flat_returns:
  "add_returns [\<lparr>Date = (2024, 1, 2), Adj_Close = Num 100\<rparr>,
                \<lparr>Date = (2024, 1, 3), Adj_Close = Num 100\<rparr>,
                \<lparr>Date = (2024, 1, 4), Adj_Close = Num 100\<rparr>]
     = [\<lparr>Date = (2024, 1, 3), Adj_Close = Num 100, Return = Num 0, CumReturn = Num 0\<rparr>,
        \<lparr>Date = (2024, 1, 4), Adj_Close = Num 100, Return = Num 0, CumReturn = Num 0\<rparr>]"
  by (simp add: add_returns_def cumprod_def fsub_def)

lemma flat_metrics:
  "compute_metrics
     [\<lparr>Date = (2024, 1, 3), Adj_Close = Num 100, Return = Num 0, CumReturn = Num 0\<rparr>,
      \<lparr>Date = (2024, 1, 4), Adj_Close = Num 100, Return = Num 0, CumReturn = Num 0\<rparr>]
     = Inr ([\<lparr>Date = (2024, 1, 3), Adj_Close = Num 100, Return = Num 0, CumReturn = Num 0,
              Downside = Num 0\<rparr>,
             \<lparr>Date = (2024, 1, 4), Adj_Close = Num 100, Return = Num 0, CumReturn = Num 0,
              Downside = Num 0\<rparr>],
            \<lparr>start = (2024, 1, 3), end' = (2024, 1, 4), years = 1 / 365.25, cum = Num 0,
             ann = Num 0, std = Num 0, sharpe = NaN, sortino = NaN\<rparr>)"
  by (simp add: compute_metrics_def ordinal_defs Let_def add_downside_def clip_upper_def
      series_std_def series_sum_def fsub_def risk_free_rate_def truthy_def)

lemma flat_fetch:
  "fetch_price_and_metrics no_datetime (price_table three_days [100, 100, 100]) None None
     = Inr ([\<lparr>Date = (2024, 1, 3), Adj_Close = Num 100, Return = Num 0, CumReturn = Num 0,
              Downside = Num 0\<rparr>,
             \<lparr>Date = (2024, 1, 4), Adj_Close = Num 100, Return = Num 0, CumReturn = Num 0,
              Downside = Num 0\<rparr>],
            \<lparr>start = (2024, 1, 3), end' = (2024, 1, 4), years = 1 / 365.25, cum = Num 0,
             ann = Num 0, std = Num 0, sharpe = NaN, sortino = NaN\<rparr>)"
  by (simp only: fetch_price_and_metrics_def flat_load flat_returns flat_metrics sum.case)

text \<open>
  Claim C7. A table with two-level column labels and the single-level table that
  carries the same index and the same data under the first-level names are one table
  after \<open>flatten\<close>: \<open>flatten\<close> turns the first into the second, keeping index and
  data, and leaves the second alone. So \<open>fetch_price_and_metrics\<close> gives the same
  result for both, the same rows and the same summary where one comes out.
\<close>

theorem flatten_transparent:
  assumes "columns multi = MultiIndex cs"
      and "columns single = Index (map fst cs)"
      and "index single = index multi"
      and "data single = data multi"
  shows "flatten multi = single
         \<and> flatten single = single
         \<and> columns (flatten multi) = Index (map fst cs)
         \<and> index (flatten multi) = index multi
         \<and> data (flatten multi) = data multi
         \<and> fetch_price_and_metrics to_datetime multi sd ed
           = fetch_price_and_metrics to_datetime single sd ed"
proof -
  have s: "flatten single = single" using assms(2) by (rule flatten_single)
  have m: "flatten multi = multi\<lparr>columns := Index (map fst cs)\<rparr>"
    using assms(1) by (rule flatten_multi)
  have e: "multi\<lparr>columns := Index (map fst cs)\<rparr> = single"
    using assms(2,3,4) by (cases multi, cases single) simp
  from m e have f: "flatten multi = single" by simp
  with s have "fetch_price_and_metrics to_datetime multi sd ed
           = fetch_price_and_metrics to_datetime single sd ed"
    by (simp add: fetch_price_and_metrics_def load_prices_def)
  with f s assms show ?thesis by simp
qed

theorem flatten_transparent_witness:
  "columns (multi_table three_days [100, 100, 100])
     = MultiIndex [(''Adj Close'', ''AAPL''), (''Volume'', ''AAPL'')]
   \<and> columns (price_table three_days [100, 100, 100]) = Index [''Adj Close'', ''Volume'']
   \<and> index (price_table three_days [100, 100, 100]) = index (multi_table three_days [100, 100, 100])
   \<and> data (price_table three_days [100, 100, 100]) = data (multi_table three_days [100, 100, 100])
   \<and> flatten (multi_table three_days [100, 100, 100]) = price_table three_days [100, 100, 100]
   \<and> fetch_price_and_metrics no_datetime (multi_table three_days [100, 100, 100]) None None
     = Inr ([\<lparr>Date = (2024, 1, 3), Adj_Close = Num 100, Return = Num 0, CumReturn = Num 0,
              Downside = Num 0\<rparr>,
             \<lparr>Date = (2024, 1, 4), Adj_Close = Num 100, Return = Num 0, CumReturn = Num 0,
              Downside = Num 0\<rparr>],
            \<lparr>start = (2024, 1, 3), end' = (2024, 1, 4), years = 1 / 365.25, cum = Num 0,
             ann = Num 0, std = Num 0, sharpe = NaN, sortino = NaN\<rparr>)
   \<and> fetch_price_and_metrics no_datetime (price_table three_days [100, 100, 100]) None None
     = fetch_price_and_metrics no_datetime (multi_table three_days [100, 100, 100]) None None"
proof -
  let ?m = "multi_table three_days [100, 100, 100]"
  let ?s = "price_table three_days [100, 100, 100]"
  have c: "columns ?m = MultiIndex [(''Adj Close'', ''AAPL''), (''Volume'', ''AAPL'')]"
    by (simp add: multi_table_def)
  have d: "columns ?s = Index (map fst [(''Adj Close'', ''AAPL''), (''Volume'', ''AAPL'')])"
    by (simp add: price_table_def)
  have i: "index ?s = index ?m" by (simp add: price_table_def multi_table_def)
  have v: "data ?s = data ?m" by (simp add: price_table_def multi_table_def)
  from flatten_transparent [OF c d i v, of no_datetime None None]
  have 1: "flatten ?m = ?s"
    and 2: "fetch_price_and_metrics no_datetime ?m None None
            = fetch_price_and_metrics no_datetime ?s None None"
    by simp_all
  from c d i v 1 2 flat_fetch show ?thesis by simp
qed

section \<open>The short ranges\<close>

text \<open>
  Claim C2 (the code departs from it). A range that leaves fewer than two rows should
  fail with \<open>EmptyRange\<close>. With one row left (here: both bounds on the same trading
  day) the check for an empty table has passed, the only row is dropped with its
  undefined return, and \<open>iloc[0]\<close> raises \<open>IndexError\<close>.
\<close>

theorem one_row_raises_IndexError:
  "fetch_price_and_metrics one_datetime (price_table three_days [100, 110, 121])
     (Some (ascii ''2024-01-03'')) (Some (ascii ''2024-01-03'')) = Inl IndexError"
  by (simp add: fetch_price_and_metrics_def load_defs add_returns_def cumprod_def
      compute_metrics_def three_days_def one_datetime_def ascii_def)

text \<open>
  Claim C3 (the code departs from it). For the two observations (day 0, 100) and
  (day 365, 110) the first is dropped with its undefined return, the start and the end
  of the summary are both day 365, \<open>years\<close> is zero and \<open>1/years\<close> raises
  \<open>ZeroDivisionError\<close>: no elapsed year and no annualized return are computed.
\<close>

theorem two_point_raises_ZeroDivisionError:
  "toordinal (2022, 1, 1) - toordinal (2021, 1, 1) = 365
   \<and> fetch_price_and_metrics no_datetime
        (price_table [(2021, 1, 1), (2022, 1, 1)] [100, 110]) None None
       = Inl ZeroDivisionError"
  by (simp add: fetch_price_and_metrics_def load_defs add_returns_def cumprod_def
      compute_metrics_def fsub_def ordinal_defs)

section \<open>The retirement estimate\<close>

text \<open>
  Claim C4. After a successful call of \<open>fetch_price_and_metrics\<close>, the estimate fails
  with \<open>InsufficientReturn\<close> exactly when the real withdrawal rate, the annualized
  return minus the inflation rate, is at most zero; otherwise the required capital is
  the annual expense over that rate. With 7 percent return, 2 percent inflation and an
  expense of 40000 the capital is 800000; with 1 percent return and 2 percent inflation
  the estimate fails.
\<close>

theorem retirement_estimate_rule:
  "(estimate_and_table expense infl (Inr (df, m)) = Inl InsufficientReturn
      \<longleftrightarrow> fle (fsub (fdiv (ann m) (Num 100)) infl) (Num 0))
   \<and> (\<not> fle (fsub (fdiv (ann m) (Num 100)) infl) (Num 0) \<longrightarrow>
        estimate_and_table expense infl (Inr (df, m))
          = Inr (fdiv expense (fsub (fdiv (ann m) (Num 100)) infl), year_summary df))
   \<and> (ann m = Num 7 \<longrightarrow>
        estimate_and_table (Num 40000) (fdiv (Num 2) (Num 100)) (Inr (df, m))
          = Inr (Num 800000, year_summary df))
   \<and> (ann m = Num 1 \<longrightarrow>
        estimate_and_table expense (fdiv (Num 2) (Num 100)) (Inr (df, m))
          = Inl InsufficientReturn)"
  by (simp add: estimate_and_table_def fsub_def Let_def)

theorem retirement_estimate_rule_witness:
  "ann seven_percent = Num 7
   \<and> \<not> fle (fsub (fdiv (ann seven_percent) (Num 100)) (Num (1 / 50))) (Num 0)
   \<and> estimate_and_table (Num 40000) (fdiv (Num 2) (Num 100)) (Inr ([], seven_percent))
       = Inr (Num 800000, [])
   \<and> ann one_percent = Num 1
   \<and> estimate_and_table (Num 40000) (fdiv (Num 2) (Num 100)) (Inr ([], one_percent))
       = Inl InsufficientReturn"
proof -
  have a: "ann seven_percent = Num 7" by (simp add: seven_percent_def)
  have b: "\<not> fle (fsub (fdiv (ann seven_percent) (Num 100)) (Num (1 / 50))) (Num 0)"
    by (simp add: seven_percent_def fsub_def)
  have c: "year_summary [] = []" by (simp add: year_summary_def List.map_filter_simps)
  have d: "ann one_percent = Num 1" by (simp add: one_percent_def)
  from a b c d retirement_estimate_rule [of "Num 40000" "Num (1 / 50)" "[]" seven_percent]
    retirement_estimate_rule [of "Num 40000" "Num (1 / 50)" "[]" one_percent]
  show ?thesis by (simp add: fsub_def)
qed

section \<open>The return series\<close>

lemma priced_prices:
  "list_all (\<lambda>r. priced (Adj_Close r)) rows \<Longrightarrow>
     \<exists>xs. map Adj_Close rows = map Num xs \<and> list_all (\<lambda>x. x \<noteq> 0) xs"
proof (induction rows)
  case Nil
  then show ?case by simp
next
  case (Cons r rows)
  then obtain xs where xs: "map Adj_Close rows = map Num xs" "list_all (\<lambda>x. x \<noteq> 0) xs"
    by auto
  from Cons.prems obtain x where x: "Adj_Close r = Num x" "x \<noteq> 0"
    by (cases "Adj_Close r") auto
  have "map Adj_Close (r # rows) = map Num (x # xs) \<and> list_all (\<lambda>x. x \<noteq> 0) (x # xs)"
    using x xs by simp
  then show ?case by blast
qed

lemma pct_change_ratios: "pct_change (p # ps) = NaN # ratios (p # ps)"
  by (simp add: ratios_def)

lemma ratios_Num:
  "q \<noteq> 0 \<Longrightarrow> list_all (\<lambda>x. x \<noteq> 0) xs \<Longrightarrow>
     ratios (Num q # map Num xs) = map (\<lambda>(prev, cur). Num (cur / prev - 1)) (zip (q # xs) xs)"
proof (induction xs arbitrary: q)
  case Nil
  then show ?case by (simp add: ratios_def)
next
  case (Cons x xs)
  from Cons.IH [of x] Cons.prems show ?case by (simp add: ratios_def fsub_def)
qed

lemma ratios_not_NaN:
  "q \<noteq> 0 \<Longrightarrow> list_all (\<lambda>x. x \<noteq> 0) xs \<Longrightarrow> list_all (\<lambda>v. v \<noteq> NaN) (ratios (Num q # map Num xs))"
  by (simp add: ratios_Num list_all_iff split_beta)

lemma length_ratios: "length (ratios (p # ps)) = length ps"
  by (simp add: ratios_def)

lemma cumprod_ratios:
  "q \<noteq> 0 \<Longrightarrow> p0 \<noteq> 0 \<Longrightarrow> list_all (\<lambda>x. x \<noteq> 0) xs \<Longrightarrow>
     cumprod_from (Num (q / p0)) (map (fadd (Num 1)) (ratios (Num q # map Num xs)))
       = map (\<lambda>x. Num (x / p0)) xs"
proof (induction xs arbitrary: q)
  case Nil
  then show ?case by (simp add: ratios_def)
next
  case (Cons x xs)
  have r: "ratios (Num q # Num x # map Num xs) = Num (x / q - 1) # ratios (Num x # map Num xs)"
    using Cons.prems by (simp add: ratios_def fsub_def)
  have "q / p0 * (x / q) = x / p0" using Cons.prems by simp
  with Cons.IH [of x] Cons.prems show ?case by (simp add: r)
qed


lemma map_zip3_fst:
  "length as = length bs \<Longrightarrow> length bs = length cs \<Longrightarrow>
     map (\<lambda>z. f (fst (fst z))) (zip (zip as bs) cs) = map f as"
  by (induction as bs cs rule: list_induct3) simp_all

lemma map_zip3_snd:
  "length as = length bs \<Longrightarrow> length bs = length cs \<Longrightarrow>
     map (\<lambda>z. f (snd (fst z))) (zip (zip as bs) cs) = map f bs"
  by (induction as bs cs rule: list_induct3) simp_all

lemma map_zip3_third:
  "length as = length bs \<Longrightarrow> length bs = length cs \<Longrightarrow>
     map (\<lambda>z. f (snd z)) (zip (zip as bs) cs) = map f cs"
  by (induction as bs cs rule: list_induct3) simp_all

lemma length_cumprod_from: "length (cumprod_from a xs) = length xs"
  by (induction xs arbitrary: a) simp_all

lemma kept_all:
  assumes "length rs = length vs" "list_all (\<lambda>v. v \<noteq> NaN) vs"
  shows "filter (\<lambda>(r, x). x \<noteq> NaN) (zip (r0 # rs) (NaN # vs)) = zip rs vs"
proof -
  have "\<forall>p \<in> set (zip rs vs). (\<lambda>(r, x). x \<noteq> NaN) p"
    using assms(2) by (auto simp: list_all_iff dest: set_zip_rightD)
  then have "filter (\<lambda>(r, x). x \<noteq> NaN) (zip rs vs) = zip rs vs"
    by (simp only: filter_True)
  then show ?thesis by simp
qed


lemma map_zip_snd:
  "length as = length bs \<Longrightarrow> map (\<lambda>(r, x). f x) (zip as bs) = map f bs"
  by (induction as bs rule: list_induct2) simp_all

lemma add_returns_priced:
  assumes "map Adj_Close (r0 # rs) = map Num (p0 # xs)" "list_all (\<lambda>x. x \<noteq> 0) (p0 # xs)"
  shows "map Date (add_returns (r0 # rs)) = map Date rs"
    and "map Adj_Close (add_returns (r0 # rs)) = map Num xs"
    and "map Return (add_returns (r0 # rs)) = map (\<lambda>(prev, cur). Num (cur / prev - 1)) (zip (p0 # xs) xs)"
    and "map CumReturn (add_returns (r0 # rs)) = map (\<lambda>x. Num (x / p0 - 1)) xs"
proof -
  let ?vs = "ratios (Num p0 # map Num xs)"
  let ?cs = "map (\<lambda>c. fsub c (Num 1)) (cumprod (map (fadd (Num 1)) ?vs))"
  from assms have p0: "p0 \<noteq> 0" and xs: "list_all (\<lambda>x. x \<noteq> 0) xs" by simp_all
  from assms(1) have l: "length rs = length xs" by (metis length_map list.inject list.simps(9))
  then have lv: "length rs = length ?vs" by (simp add: length_ratios)
  have lc: "length ?vs = length ?cs" by (simp add: cumprod_def length_cumprod_from)
  have k: "filter (\<lambda>(r, x). x \<noteq> NaN) (zip (r0 # rs) (pct_change (map Adj_Close (r0 # rs)))) = zip rs ?vs"
    using kept_all [OF lv ratios_not_NaN [OF p0 xs]] assms(1) by (simp add: ratios_def)
  have m: "map (\<lambda>(r, x). fadd (Num 1) x) (zip rs ?vs) = map (fadd (Num 1)) ?vs"
    using lv by (rule map_zip_snd)
  have a: "add_returns (r0 # rs) = map (\<lambda>((r, x), c).
                \<lparr>Date = Date r, Adj_Close = Adj_Close r, Return = x, CumReturn = c\<rparr>)
           (zip (zip rs ?vs) ?cs)"
    unfolding add_returns_def Let_def k m ..
  have c: "?cs = map (\<lambda>x. Num (x / p0 - 1)) xs"
    using cumprod_ratios [OF p0 p0 xs] p0 by (simp add: cumprod_def fsub_def)
  show "map Date (add_returns (r0 # rs)) = map Date rs"
    unfolding a by (simp add: split_beta comp_def map_zip3_fst [OF lv lc])
  show "map Adj_Close (add_returns (r0 # rs)) = map Num xs"
    unfolding a using assms(1) by (simp add: split_beta comp_def map_zip3_fst [OF lv lc])
  show "map Return (add_returns (r0 # rs)) = map (\<lambda>(prev, cur). Num (cur / prev - 1)) (zip (p0 # xs) xs)"
    unfolding a using map_zip3_snd [OF lv lc, of "\<lambda>x. x"] ratios_Num [OF p0 xs] by (simp add: split_beta comp_def)
  show "map CumReturn (add_returns (r0 # rs)) = map (\<lambda>x. Num (x / p0 - 1)) xs"
    unfolding a using map_zip3_third [OF lv lc, of "\<lambda>x. x"] c by (simp add: split_beta comp_def)
qed

lemma compute_metrics_Inr:
  assumes "compute_metrics d = Inr (df, m)"
  shows "d \<noteq> [] \<and> df = add_downside d \<and> cum m = fmul (CumReturn (last d)) (Num 100)"
  using assms by (auto simp: compute_metrics_def Let_def split: if_splits)

lemma compute_metrics_sortino:
  assumes "d \<noteq> []" and "toordinal (Date (last d)) \<noteq> toordinal (Date (hd d))"
      and "fmul (series_std (map Downside (add_downside d))) (Num (sqrt 252)) = Num 0"
  shows "\<exists>m. compute_metrics d = Inr (add_downside d, m)
           \<and> start m = Date (hd d) \<and> end' m = Date (last d) \<and> sortino m = NaN"
  using assms by (simp add: compute_metrics_def Let_def truthy_def)

lemma CumReturn_add_downside: "map CumReturn (add_downside d) = map CumReturn d"
  by (simp add: add_downside_def comp_def)

lemma length_add_downside: "length (add_downside d) = length d"
  by (simp add: add_downside_def)

lemma series_sum_zeros: "series_sum (replicate n (Num 0)) = Num 0"
  unfolding series_sum_def by (induction n) simp_all

lemma series_std_zeros:
  assumes "2 \<le> n"
  shows "series_std (replicate n (Num 0)) = Num 0"
proof -
  have f: "filter (\<lambda>v. v \<noteq> NaN) (replicate n (Num 0)) = replicate n (Num 0)" by simp
  have a: "fdiv (series_sum (replicate n (Num 0))) (Num (real n)) = Num 0"
    using assms by (simp add: series_sum_zeros)
  have s: "map (\<lambda>v. fmul (fsub (Num 0) v) (fsub (Num 0) v)) (replicate n (Num 0)) = replicate n (Num 0)"
    by (simp add: fsub_def)
  have n: "real n - 1 \<noteq> 0" "\<not> n \<le> 1" using assms by simp_all
  show ?thesis
    unfolding series_std_def Let_def f a s length_replicate using n by (simp add: series_sum_zeros)
qed

lemma clip_nonneg: "fle (Num 0) v \<Longrightarrow> clip_upper (Num 0) v = Num 0"
  by (cases v) (auto simp: clip_upper_def)

lemma downside_nonneg:
  assumes "list_all (\<lambda>r. fle (Num 0) (Return r)) d"
  shows "map Downside (add_downside d) = replicate (length d) (Num 0)"
  using assms by (induction d) (simp_all add: add_downside_def clip_nonneg)

lemma distinct_ends_length:
  assumes "d \<noteq> []" and "f (last d) \<noteq> f (hd d)"
  shows "2 \<le> length d"
proof (cases d)
  case Nil
  with assms show ?thesis by simp
next
  case (Cons a as)
  with assms have "as \<noteq> []" by auto
  with Cons show ?thesis by (cases as) simp_all
qed

lemma example_load:
  "load_prices no_datetime (price_table three_days [100, 110, 121]) None None
     = Inr [\<lparr>Date = (2024, 1, 2), Adj_Close = Num 100\<rparr>,
            \<lparr>Date = (2024, 1, 3), Adj_Close = Num 110\<rparr>,
            \<lparr>Date = (2024, 1, 4), Adj_Close = Num 121\<rparr>]"
  by (simp add: load_defs three_days_def)

lemma example_returns:
  "add_returns [\<lparr>Date = (2024, 1, 2), Adj_Close = Num 100\<rparr>,
                \<lparr>Date = (2024, 1, 3), Adj_Close = Num 110\<rparr>,
                \<lparr>Date = (2024, 1, 4), Adj_Close = Num 121\<rparr>]
     = [\<lparr>Date = (2024, 1, 3), Adj_Close = Num 110, Return = Num (1 / 10),
         CumReturn = Num (1 / 10)\<rparr>,
        \<lparr>Date = (2024, 1, 4), Adj_Close = Num 121, Return = Num (1 / 10),
         CumReturn = Num (21 / 100)\<rparr>]"
  by (simp add: add_returns_def cumprod_def fsub_def)

lemma example_ordinals: "toordinal (2024, 1, 4) \<noteq> toordinal (2024, 1, 3)"
  by (simp add: ordinal_defs)

text \<open>
  Claim C1, as amended. For a price series of N \<ge> 2 observations whose prices are
  numbers other than zero, the return series has exactly N - 1 entries, those of all
  observations but the first, and the cumulative return at its last entry is the last
  price over the first price of the price series, minus one: the base is the
  observation that was dropped, not the first one that was retained. Whenever
  \<open>fetch_price_and_metrics\<close> returns, its rows and the \<open>cum\<close> of its summary are
  these.
\<close>

theorem return_series_base:
  assumes "load_prices to_datetime raw_df sd ed = Inr rows"
      and "2 \<le> length rows"
      and "list_all (\<lambda>r. priced (Adj_Close r)) rows"
  shows "length (add_returns rows) = length rows - 1
         \<and> map Date (add_returns rows) = tl (map Date rows)
         \<and> CumReturn (last (add_returns rows))
             = fsub (fdiv (Adj_Close (last rows)) (Adj_Close (hd rows))) (Num 1)
         \<and> (\<forall>df m. fetch_price_and_metrics to_datetime raw_df sd ed = Inr (df, m) \<longrightarrow>
               length df = length rows - 1
               \<and> CumReturn (last df)
                   = fsub (fdiv (Adj_Close (last rows)) (Adj_Close (hd rows))) (Num 1)
               \<and> cum m
                   = fmul (fsub (fdiv (Adj_Close (last rows)) (Adj_Close (hd rows))) (Num 1))
                       (Num 100))"
proof -
  from assms(2) obtain r0 r1 rs where rows: "rows = r0 # r1 # rs"
    by (cases rows; cases "tl rows") auto
  from priced_prices [OF assms(3)] obtain ps where
    ps: "map Adj_Close rows = map Num ps" "list_all (\<lambda>x. x \<noteq> 0) ps" by blast
  with rows obtain p0 p1 xs where ps': "ps = p0 # p1 # xs"
    by (cases ps; cases "tl ps") auto
  have A: "map Adj_Close (r0 # (r1 # rs)) = map Num (p0 # (p1 # xs))"
    using ps(1) rows ps' by simp
  have B: "list_all (\<lambda>x. x \<noteq> 0) (p0 # (p1 # xs))" using ps(2) ps' by simp
  note ar = add_returns_priced [OF A B]
  let ?d = "add_returns rows"
  have len: "length ?d = length rows - 1"
    using arg_cong [OF ar(1), of length] rows by simp
  have ne: "?d \<noteq> []" using len rows by auto
  have dates: "map Date ?d = tl (map Date rows)" using ar(1) rows by simp
  have "CumReturn (last ?d) = last (map CumReturn ?d)" using ne by (simp add: last_map)
  also have "\<dots> = Num (last (p1 # xs) / p0 - 1)" using ar(4) rows by (simp add: last_map)
  finally have c1: "CumReturn (last ?d) = Num (last (p1 # xs) / p0 - 1)" .
  have "Adj_Close (last rows) = last (map Adj_Close rows)" using rows by (simp add: last_map)
  then have l: "Adj_Close (last rows) = Num (last (p1 # xs))"
    using ps(1) ps' by (simp add: last_map)
  have h: "Adj_Close (hd rows) = Num p0" using A rows by simp
  have p0: "p0 \<noteq> 0" using B by simp
  have c: "CumReturn (last ?d) = fsub (fdiv (Adj_Close (last rows)) (Adj_Close (hd rows))) (Num 1)"
    unfolding c1 l h using p0 by (simp add: fsub_def)
  have f: "fetch_price_and_metrics to_datetime raw_df sd ed = compute_metrics ?d"
    using assms(1) by (simp add: fetch_price_and_metrics_def)
  have "length df = length rows - 1
        \<and> CumReturn (last df) = fsub (fdiv (Adj_Close (last rows)) (Adj_Close (hd rows))) (Num 1)
        \<and> cum m = fmul (fsub (fdiv (Adj_Close (last rows)) (Adj_Close (hd rows))) (Num 1)) (Num 100)"
    if "fetch_price_and_metrics to_datetime raw_df sd ed = Inr (df, m)" for df m
  proof -
    from that f have "compute_metrics ?d = Inr (df, m)" by simp
    from compute_metrics_Inr [OF this]
    have df: "df = add_downside ?d" and cm: "cum m = fmul (CumReturn (last ?d)) (Num 100)"
      by simp_all
    have "CumReturn (last df) = last (map CumReturn df)"
      using ne df by (simp add: last_map add_downside_def)
    also have "\<dots> = CumReturn (last ?d)"
      unfolding df CumReturn_add_downside using ne by (simp add: last_map)
    finally show ?thesis using c cm len df by (simp add: length_add_downside)
  qed
  with len dates c show ?thesis by blast
qed

theorem return_series_base_witness:
  "load_prices no_datetime (price_table three_days [100, 110, 121]) None None
     = Inr [\<lparr>Date = (2024, 1, 2), Adj_Close = Num 100\<rparr>,
            \<lparr>Date = (2024, 1, 3), Adj_Close = Num 110\<rparr>,
            \<lparr>Date = (2024, 1, 4), Adj_Close = Num 121\<rparr>]
   \<and> length (add_returns [\<lparr>Date = (2024, 1, 2), Adj_Close = Num 100\<rparr>,
            \<lparr>Date = (2024, 1, 3), Adj_Close = Num 110\<rparr>,
            \<lparr>Date = (2024, 1, 4), Adj_Close = Num 121\<rparr>]) = 2
   \<and> CumReturn (last (add_returns [\<lparr>Date = (2024, 1, 2), Adj_Close = Num 100\<rparr>,
            \<lparr>Date = (2024, 1, 3), Adj_Close = Num 110\<rparr>,
            \<lparr>Date = (2024, 1, 4), Adj_Close = Num 121\<rparr>])) = Num (121 / 100 - 1)"
proof -
  let ?rows = "[\<lparr>Date = (2024, 1, 2), Adj_Close = Num 100\<rparr>,
            \<lparr>Date = (2024, 1, 3), Adj_Close = Num 110\<rparr>,
            \<lparr>Date = (2024, 1, 4), Adj_Close = Num 121\<rparr>]"
  have a: "2 \<le> length ?rows" by simp
  have b: "list_all (\<lambda>r. priced (Adj_Close r)) ?rows" by simp
  from return_series_base [OF example_load a b] example_load
  show ?thesis by (simp add: fsub_def)
qed

text \<open>
  The claim C1 as it is written fails: for the prices 100, 110, 121 the retained
  observations are 110 and 121, the last price over the first retained price minus one
  is 1/10, and the cumulative return at the last entry is 21/100.
\<close>

theorem cumulative_base_not_first_retained:
  "\<not> isl (fetch_price_and_metrics no_datetime (price_table three_days [100, 110, 121]) None None)
   \<and> map Adj_Close (fst (projr (fetch_price_and_metrics no_datetime
        (price_table three_days [100, 110, 121]) None None))) = [Num 110, Num 121]
   \<and> CumReturn (last (fst (projr (fetch_price_and_metrics no_datetime
        (price_table three_days [100, 110, 121]) None None)))) = Num (21 / 100)
   \<and> fsub (fdiv (Num 121) (Num 110)) (Num 1) = Num (1 / 10)
   \<and> CumReturn (last (fst (projr (fetch_price_and_metrics no_datetime
        (price_table three_days [100, 110, 121]) None None))))
       \<noteq> fsub (fdiv (Adj_Close (last (fst (projr (fetch_price_and_metrics no_datetime
                  (price_table three_days [100, 110, 121]) None None)))))
                (Adj_Close (hd (fst (projr (fetch_price_and_metrics no_datetime
                  (price_table three_days [100, 110, 121]) None None)))))) (Num 1)
   \<and> cum (snd (projr (fetch_price_and_metrics no_datetime
        (price_table three_days [100, 110, 121]) None None))) = Num 21"
proof -
  have "\<exists>m. compute_metrics [\<lparr>Date = (2024, 1, 3), Adj_Close = Num 110, Return = Num (1 / 10),
         CumReturn = Num (1 / 10)\<rparr>,
        \<lparr>Date = (2024, 1, 4), Adj_Close = Num 121, Return = Num (1 / 10),
         CumReturn = Num (21 / 100)\<rparr>]
      = Inr (add_downside [\<lparr>Date = (2024, 1, 3), Adj_Close = Num 110, Return = Num (1 / 10),
         CumReturn = Num (1 / 10)\<rparr>,
        \<lparr>Date = (2024, 1, 4), Adj_Close = Num 121, Return = Num (1 / 10),
         CumReturn = Num (21 / 100)\<rparr>], m) \<and> cum m = Num 21"
    using example_ordinals by (simp add: compute_metrics_def Let_def)
  then obtain m where "fetch_price_and_metrics no_datetime (price_table three_days [100, 110, 121]) None None
      = Inr (add_downside [\<lparr>Date = (2024, 1, 3), Adj_Close = Num 110, Return = Num (1 / 10),
         CumReturn = Num (1 / 10)\<rparr>,
        \<lparr>Date = (2024, 1, 4), Adj_Close = Num 121, Return = Num (1 / 10),
         CumReturn = Num (21 / 100)\<rparr>], m)" and "cum m = Num 21"
    by (auto simp only: fetch_price_and_metrics_def example_load example_returns sum.case)
  then show ?thesis by (simp add: add_downside_def fsub_def)
qed

section \<open>Sharpe and Sortino\<close>

text \<open>
  Past the short ranges the guard of the Sortino ratio does what it is there for: when
  there is a return row, the first and last retained dates differ and every daily
  return is non-negative, the downside column is zero throughout, its deviation is
  exactly zero and the summary is returned with a Sortino ratio that is not-a-number.
\<close>

lemma sortino_nan_when_reached:
  assumes "load_prices to_datetime raw_df sd ed = Inr rows"
      and "add_returns rows \<noteq> []"
      and "toordinal (Date (last (add_returns rows))) \<noteq> toordinal (Date (hd (add_returns rows)))"
      and "list_all (\<lambda>r. fle (Num 0) (Return r)) (add_returns rows)"
  shows "\<exists>m. fetch_price_and_metrics to_datetime raw_df sd ed
                = Inr (add_downside (add_returns rows), m)
             \<and> start m = Date (hd (add_returns rows))
             \<and> end' m = Date (last (add_returns rows))
             \<and> sortino m = NaN"
proof -
  let ?d = "add_returns rows"
  have "2 \<le> length ?d" using assms(2,3) by (rule distinct_ends_length)
  then have z: "fmul (series_std (map Downside (add_downside ?d))) (Num (sqrt 252)) = Num 0"
    by (simp add: downside_nonneg [OF assms(4)] series_std_zeros)
  from compute_metrics_sortino [OF assms(2,3) z] assms(1)
  show ?thesis by (simp add: fetch_price_and_metrics_def)
qed

lemma short_load:
  "load_prices no_datetime (price_table [(2024, 1, 2), (2024, 1, 3)] [100, 110]) None None
     = Inr [\<lparr>Date = (2024, 1, 2), Adj_Close = Num 100\<rparr>,
            \<lparr>Date = (2024, 1, 3), Adj_Close = Num 110\<rparr>]"
  by (simp add: load_defs)

lemma short_returns:
  "add_returns [\<lparr>Date = (2024, 1, 2), Adj_Close = Num 100\<rparr>,
                \<lparr>Date = (2024, 1, 3), Adj_Close = Num 110\<rparr>]
     = [\<lparr>Date = (2024, 1, 3), Adj_Close = Num 110, Return = Num (1 / 10),
         CumReturn = Num (1 / 10)\<rparr>]"
  by (simp add: add_returns_def cumprod_def fsub_def)

text \<open>
  Claim C6 (the code departs from it). Whenever every daily return of the range is
  non-negative the Sortino ratio should be reported as not-a-number, without an error
  and with the other fields of the summary. For the two observations 100 and 110 the
  only daily return is 1/10, and \<open>fetch_price_and_metrics\<close> raises
  \<open>ZeroDivisionError\<close> at \<open>1/years\<close>, before the Sortino ratio is computed: no summary
  is produced.
\<close>

theorem nonnegative_short_range_raises:
  "load_prices no_datetime (price_table [(2024, 1, 2), (2024, 1, 3)] [100, 110]) None None
     = Inr [\<lparr>Date = (2024, 1, 2), Adj_Close = Num 100\<rparr>,
            \<lparr>Date = (2024, 1, 3), Adj_Close = Num 110\<rparr>]
   \<and> map Return (add_returns [\<lparr>Date = (2024, 1, 2), Adj_Close = Num 100\<rparr>,
                               \<lparr>Date = (2024, 1, 3), Adj_Close = Num 110\<rparr>])
       = [Num (1 / 10)]
   \<and> list_all (\<lambda>r. fle (Num 0) (Return r))
        (add_returns [\<lparr>Date = (2024, 1, 2), Adj_Close = Num 100\<rparr>,
                      \<lparr>Date = (2024, 1, 3), Adj_Close = Num 110\<rparr>])
   \<and> fetch_price_and_metrics no_datetime
        (price_table [(2024, 1, 2), (2024, 1, 3)] [100, 110]) None None
       = Inl ZeroDivisionError"
proof -
  have "compute_metrics [\<lparr>Date = (2024, 1, 3), Adj_Close = Num 110, Return = Num (1 / 10),
         CumReturn = Num (1 / 10)\<rparr>] = Inl ZeroDivisionError"
    by (simp add: compute_metrics_def)
  then have "fetch_price_and_metrics no_datetime
        (price_table [(2024, 1, 2), (2024, 1, 3)] [100, 110]) None None
       = Inl ZeroDivisionError"
    by (simp only: fetch_price_and_metrics_def short_load short_returns sum.case)
  then show ?thesis by (simp add: short_load short_returns)
qed


section \<open>The table of the years\<close>

lemma peak_load: "load_prices no_datetime (price_table four_days [100, 110, 150, 120]) None None
  = Inr [\<lparr>Date = (2024, 1, 2), Adj_Close = Num 100\<rparr>, \<lparr>Date = (2024, 1, 3), Adj_Close = Num 110\<rparr>,
         \<lparr>Date = (2024, 1, 4), Adj_Close = Num 150\<rparr>, \<lparr>Date = (2024, 1, 5), Adj_Close = Num 120\<rparr>]"
  by (simp add: load_defs four_days_def)

lemma peak_returns: "add_returns [\<lparr>Date = (2024, 1, 2), Adj_Close = Num 100\<rparr>, \<lparr>Date = (2024, 1, 3), Adj_Close = Num 110\<rparr>,
         \<lparr>Date = (2024, 1, 4), Adj_Close = Num 150\<rparr>, \<lparr>Date = (2024, 1, 5), Adj_Close = Num 120\<rparr>]
  = [\<lparr>Date = (2024, 1, 3), Adj_Close = Num 110, Return = Num (1 / 10), CumReturn = Num (1 / 10)\<rparr>,
      \<lparr>Date = (2024, 1, 4), Adj_Close = Num 150, Return = Num (4 / 11), CumReturn = Num (1 / 2)\<rparr>,
      \<lparr>Date = (2024, 1, 5), Adj_Close = Num 120, Return = Num (- 1 / 5), CumReturn = Num (1 / 5)\<rparr>]"
  by (simp add: add_returns_def cumprod_def fsub_def)

lemma peak_metrics:
  "\<exists>m. compute_metrics [\<lparr>Date = (2024, 1, 3), Adj_Close = Num 110, Return = Num (1 / 10), CumReturn = Num (1 / 10)\<rparr>,
      \<lparr>Date = (2024, 1, 4), Adj_Close = Num 150, Return = Num (4 / 11), CumReturn = Num (1 / 2)\<rparr>,
      \<lparr>Date = (2024, 1, 5), Adj_Close = Num 120, Return = Num (- 1 / 5), CumReturn = Num (1 / 5)\<rparr>]
    = Inr (peak_rows, m) \<and> ann m = Num (((12 / 11) powr (365.25 / 2) - 1) * 100)"
  by (simp add: compute_metrics_def ordinal_defs Let_def add_downside_def clip_upper_def peak_rows_def fsub_def)

lemma peak_summary:
  "year_summary peak_rows = [\<lparr>Year = 2024, end_date = (2024, 1, 5), end_price = Num 120,
      annual_return = Num (100 / 11), cum_return = Num 50\<rparr>]"
  by (simp add: year_summary_def peak_rows_def year_def List.map_filter_simps group_row_def
     idxmax_row_def idxmin_row_def series_max_def fmax_def fsub_def)

lemma powr_pos: "\<not> (12 / 11) powr (1461 / 8) \<le> (1::real)"
proof -
  have "(1::real) powr (1461 / 8) < (12 / 11) powr (1461 / 8)"
    by (rule powr_less_mono2) simp_all
  then have "(1::real) < (12 / 11) powr (1461 / 8)" by (simp only: powr_one_eq_one)
  then show ?thesis by (simp only: not_le)
qed

text \<open>
  Claim C5 (the code departs from it). The row of a year should carry the cumulative
  return as of the last date of the year. The code takes the greatest cumulative return
  of the year: for the prices 100, 110, 150, 120 on four days of 2024 the row of 2024
  ends on 2024-01-05 with the price 120 and carries 50 percent, the value of
  2024-01-04, where the cumulative return on 2024-01-05 is 20 percent.
\<close>

theorem year_row_takes_peak:
  "\<not> isl (calculate_retirement no_datetime (price_table four_days [100, 110, 150, 120])
            (Num 40000) (Num 0) [] [])
   \<and> snd (projr (calculate_retirement no_datetime (price_table four_days [100, 110, 150, 120])
            (Num 40000) (Num 0) [] []))
       = [\<lparr>Year = 2024, end_date = (2024, 1, 5), end_price = Num 120,
           annual_return = Num (100 / 11), cum_return = Num 50\<rparr>]
   \<and> map (\<lambda>r. (Date r, fmul (CumReturn r) (Num 100)))
        (fst (projr (fetch_price_and_metrics no_datetime
           (price_table four_days [100, 110, 150, 120]) None None)))
       = [((2024, 1, 3), Num 10), ((2024, 1, 4), Num 50), ((2024, 1, 5), Num 20)]"
proof -
  obtain m where m: "fetch_price_and_metrics no_datetime
           (price_table four_days [100, 110, 150, 120]) None None = Inr (peak_rows, m)"
      and a: "ann m = Num (((12 / 11) powr (365.25 / 2) - 1) * 100)"
    using peak_metrics by (auto simp only: fetch_price_and_metrics_def peak_load peak_returns sum.case)
  have e: "entry_date [] = None" by (simp add: entry_date_def strip_def)
  have r: "\<not> fle (fsub (fdiv (ann m) (Num 100)) (fdiv (Num 0) (Num 100))) (Num 0)"
    using powr_pos by (simp add: a fsub_def)
  have "calculate_retirement no_datetime (price_table four_days [100, 110, 150, 120])
            (Num 40000) (Num 0) [] []
        = Inr (fdiv (Num 40000) (fsub (fdiv (ann m) (Num 100)) (fdiv (Num 0) (Num 100))),
               year_summary peak_rows)"
    using r by (simp only: calculate_retirement_def e m estimate_and_table_def sum.case prod.case Let_def if_False)
  then show ?thesis by (simp add: m peak_summary) (simp add: peak_rows_def)
qed

end
